theory Spec2Isabelle
  imports Main "HOL-Library.Sublist" "HOL-Library.FSet"
begin

section \<open>Strings\<close>

text \<open>
  Strings are lists of bytes (UTF-8). The only non-ASCII character of the source texts
  modelled here is the em dash of the orientation directives (App.tsx, lines 292-297),
  which is the three bytes \<open>E2 80 94\<close>. Case mapping and white space are the ASCII
  ones: \<open>toLowerCase\<close> maps \<open>A\<close>..\<open>Z\<close> to \<open>a\<close>..\<open>z\<close> and leaves every other byte as
  it is, and \<open>isSpace\<close> holds of the six ASCII white-space characters that
  JavaScript's \<open>\s\<close> and \<open>trim\<close> accept.
\<close>

definition emdash :: string where
  "emdash = [CHR 0xE2, CHR 0x80, CHR 0x94]"

definition lowerChar :: "char \<Rightarrow> char" where
  "lowerChar c =
     (let n = (of_char c :: nat) in if 65 \<le> n \<and> n \<le> 90 then char_of (n + 32) else c)"

definition toLowerCase :: "string \<Rightarrow> string" where
  "toLowerCase s = map lowerChar s"

text \<open>\<open>s.includes(t)\<close>: \<open>t\<close> occurs in \<open>s\<close> as a contiguous substring.\<close>

definition includes_str :: "string \<Rightarrow> string \<Rightarrow> bool" where
  "includes_str s t = sublist t s"

definition isSpace :: "char \<Rightarrow> bool" where
  "isSpace c = (c = CHR '' '' \<or> c = CHR 0x09 \<or> c = CHR 0x0A \<or> c = CHR 0x0B
                \<or> c = CHR 0x0C \<or> c = CHR 0x0D)"

definition trim :: "string \<Rightarrow> string" where
  "trim s = rev (dropWhile isSpace (rev (dropWhile isSpace s)))"

text \<open>\<open>s.split('.')\<close>: never empty; the empty string gives one empty fragment.\<close>

fun split_dot :: "string \<Rightarrow> string list" where
  "split_dot [] = [[]]"
| "split_dot (c # cs) =
     (if c = CHR ''.'' then [] # split_dot cs
      else (case split_dot cs of [] \<Rightarrow> [[c]] | f # fs \<Rightarrow> (c # f) # fs))"

text \<open>\<open>fs.join('.')\<close>.\<close>

fun join_dot :: "string list \<Rightarrow> string" where
  "join_dot [] = []"
| "join_dot [f] = f"
| "join_dot (f # g # fs) = f @ ''.'' @ join_dot (g # fs)"

text \<open>The decimal text of a number, as a template literal prints \<open>Date.now()\<close>.\<close>

definition digit :: "nat \<Rightarrow> char" where
  "digit d = char_of (48 + d)"

fun decimal :: "nat \<Rightarrow> string" where
  "decimal n = (if n < 10 then [digit n] else decimal (n div 10) @ [digit (n mod 10)])"

declare decimal.simps [simp del]

section \<open>Data model (types.ts, App.tsx lines 17-25)\<close>

datatype DatasetGroup = portrait | upper | full

record DatasetPose =
  pose_id :: string
  pose_label :: string
  pose_group :: DatasetGroup
  pose_description :: string

record GeneratedImage =
  img_id :: string
  img_url :: string
  img_prompt :: string
  img_timestamp :: nat
  img_group :: DatasetGroup

record CharacterAdjustments =
  eyeColor :: string
  bodyBuild :: string
  chestSize :: string
  hipSize :: string

datatype Status = pending | generating | completed | failed | stopped

record GenerationTask =
  status :: Status
  total_t :: nat
  current :: nat
  images :: "GeneratedImage list"
  error :: "string option"

record FailedAsset =
  fa_id :: string
  fa_label :: string
  fa_message :: string
  fa_prompt :: string
  fa_timestamp :: nat

datatype ProfileMode = auto_mode | manual_mode

text \<open>
  The constants of \<open>constants.ts\<close>, which is not part of the sources at hand, are
  parameters of the model.
\<close>

record Constants =
  POSE_DEFINITIONS :: "DatasetPose list"
  CLOTHING_LIST :: "string list"
  FACIAL_EXPRESSIONS :: "string list"

section \<open>The generation client (services/geminiService.ts, lines 51-111)\<close>

text \<open>
  What the provider does with one request is outside the program: it either rejects the
  request with an error or answers with a list of candidates (which may be absent). A
  candidate carries an optional list of parts (\<open>content?.parts\<close>) and a part an
  optional inline payload (\<open>inlineData\<close>). An error is an \<open>Error\<close> object and is
  modelled by its message, a string.
\<close>

type_synonym Part = "string option"
type_synonym Candidate = "Part list option"

datatype ProviderOutcome = Rejected string | Answered "Candidate list option"

text \<open>The \<open>catch\<close> of lines 105-110, through which every error of the call passes.\<close>

definition rethrow :: "string \<Rightarrow> string" where
  "rethrow m =
     (if includes_str m ''Requested entity was not found'' then ''API_KEY_EXPIRED'' else m)"

text \<open>The call returns the data URI (\<open>Inr\<close>) or throws an error with a message (\<open>Inl\<close>).\<close>

fun generateCharacterImage :: "ProviderOutcome \<Rightarrow> string + string" where
  "generateCharacterImage (Rejected m) = Inl (rethrow m)"
| "generateCharacterImage (Answered None) =
     Inl (rethrow ''The model did not return any candidates.'')"
| "generateCharacterImage (Answered (Some [])) =
     Inl (rethrow ''The model did not return any candidates.'')"
| "generateCharacterImage (Answered (Some (candidate # _))) =
     (case candidate of
        None \<Rightarrow> Inl (rethrow ''Generation blocked by safety filters or empty response.'')
      | Some parts \<Rightarrow>
          if parts = []
          then Inl (rethrow ''Generation blocked by safety filters or empty response.'')
          else (case find (\<lambda>part. part \<noteq> None) parts of
                  Some (Some d) \<Rightarrow> Inr (''data:image/png;base64,'' @ d)
                | _ \<Rightarrow> Inl (rethrow ''No image data found in the response parts.'')))"

section \<open>Application state (App.tsx, lines 27-73)\<close>

text \<open>
  One record holds the React state of the component and the cancellation flag
  \<open>isAbortedRef.current\<close>. Two more fields describe the asynchronous function
  \<open>startDatasetMode\<close> while it runs: \<open>control\<close> says where its loop stands, and
  \<open>history\<close> lists the synthesis calls that have come back, in the order they were made.
\<close>

record Attempt =
  att_pose :: DatasetPose
  att_prompt :: string
  att_result :: "string + string"
  att_now_id :: nat
  att_now_ts :: nat

datatype Control =
    Idle
  | AtBoundary "DatasetPose list"
  | InFlight DatasetPose string "DatasetPose list"

record App =
  isKeyConfirmed :: bool
  gallery :: "GeneratedImage list"
  profileMode :: ProfileMode
  manualCharacterProfile :: string
  sourceImage :: "string option"
  characterProfile :: "string option"
  isBodyLocked :: bool
  isHairLocked :: bool
  failedAssets :: "FailedAsset list"
  selectedPoseIds :: "string fset"
  adjustments :: CharacterAdjustments
  task :: GenerationTask
  isAborted :: bool
  control :: Control
  history :: "Attempt list"

text \<open>A \<open>string | null\<close> value is truthy when it is present and not empty.\<close>

definition truthy :: "string option \<Rightarrow> bool" where
  "truthy v = (case v of None \<Rightarrow> False | Some t \<Rightarrow> t \<noteq> [])"

section \<open>Profile resolver (App.tsx, lines 76-91)\<close>

definition getActiveProfile :: "App \<Rightarrow> string option" where
  "getActiveProfile s =
     (if profileMode s = auto_mode then characterProfile s
      else (if trim (manualCharacterProfile s) = [] then None
            else Some (trim (manualCharacterProfile s))))"

definition isProfileReady :: "App \<Rightarrow> bool" where
  "isProfileReady s =
     (if profileMode s = auto_mode then truthy (characterProfile s)
      else length (trim (manualCharacterProfile s)) > 0)"

section \<open>Identity clause (App.tsx, lines 164-196)\<close>

text \<open>
  The first match of \<open>/HAIR:\s*([^.]+)/i\<close>, group 1, or the empty string. At the leftmost
  \<open>hair:\<close> (in any case) the white space is skipped and the text up to the next full
  stop is taken; when nothing is left there, the match gives one white-space character
  back to the group; when there is none either, the search goes on to the right.
\<close>

definition hairGroup :: "string \<Rightarrow> string option" where
  "hairGroup r =
     (let w = takeWhile isSpace r;
          g = takeWhile (\<lambda>c. c \<noteq> CHR ''.'') (dropWhile isSpace r)
      in if g \<noteq> [] then Some g else if w \<noteq> [] then Some [last w] else None)"

fun hairPart :: "string \<Rightarrow> string" where
  "hairPart [] = []"
| "hairPart (c # cs) =
     (if prefix ''hair:'' (toLowerCase (c # cs))
      then (case hairGroup (drop 5 (c # cs)) of Some h \<Rightarrow> h | None \<Rightarrow> hairPart cs)
      else hairPart cs)"

text \<open>The filter of lines 172-174, applied to the profile of a portrait pose.\<close>

definition keepFragment :: "string \<Rightarrow> bool" where
  "keepFragment f =
     (\<not> includes_str (toLowerCase f) ''body build''
      \<and> \<not> includes_str (toLowerCase f) ''proportion''
      \<and> \<not> includes_str (toLowerCase f) ''waist'')"

definition stripProfile :: "string \<Rightarrow> string" where
  "stripProfile profile = join_dot (filter keepFragment (split_dot profile))"

definition getLockedIdentityMod :: "bool \<Rightarrow> bool \<Rightarrow> App \<Rightarrow> string" where
  "getLockedIdentityMod isPortrait isSideProfile s =
     (case getActiveProfile s of
        None \<Rightarrow> []
      | Some activeProfile \<Rightarrow>
          if activeProfile = [] then []
          else
            let hair = hairPart activeProfile;
                profile = (if isPortrait then stripProfile activeProfile else activeProfile);
                poseConstraint =
                  (if isSideProfile
                   then ''CRITICAL: Ignore reference orientation; force profile specified in TARGET POSE.''
                   else ''Preserve identity features and facial structure exactly.'');
                base0 = ''IDENTITY CONSTRAINTS: '' @ poseConstraint @ '' Eyes: ''
                        @ eyeColor (adjustments s) @ ''. Profile: '' @ profile @ ''.'';
                base = (if isHairLocked s \<and> hair \<noteq> []
                        then base0 @ '' MANDATORY HAIR CONSISTENCY: '' @ hair
                             @ ''. DO NOT ALTER LENGTH OR STYLE.''
                        else base0)
            in if isPortrait then base
               else if isBodyLocked s
               then base @ '' Keep the exact original body build and proportions from reference image.''
               else base @ '' Targeted Build: '' @ bodyBuild (adjustments s) @ '', Chest: ''
                    @ chestSize (adjustments s) @ '', Hips: '' @ hipSize (adjustments s) @ ''.'')"

section \<open>Prompt composition (App.tsx, lines 257-323)\<close>

text \<open>
  \<open>xs[Math.floor(Math.random() * xs.length)]\<close>: the index drawn is an input of the model;
  outside the list the read gives \<open>undefined\<close>.
\<close>

definition pick :: "string list \<Rightarrow> nat \<Rightarrow> string option" where
  "pick xs i = (if i < length xs then Some (xs ! i) else None)"

definition expressionKeywords :: "string list" where
  "expressionKeywords =
     [''smile'', ''smirk'', ''laugh'', ''teeth'', ''wink'', ''gaze'',
      ''thoughtful'', ''serene'', ''nose'', ''lip'', ''joy'', ''fear'',
      ''anxious'', ''vulnerable'', ''stern'', ''desperate'', ''exhaustion'',
      ''serene'', ''concentrated'', ''neutral'', ''stoic'', ''pensive'', ''rembrandt'']"

text \<open>Lines 280-317, as a function of the lower-cased pose description.\<close>

definition directionMod :: "string \<Rightarrow> string" where
  "directionMod descLower =
     (let isRear = (includes_str descLower ''rear'' \<or> includes_str descLower ''behind''
                    \<or> includes_str descLower ''back view''
                    \<or> includes_str descLower ''view from behind'');
          isOverShoulder = includes_str descLower ''looking back at camera'';
          isLeft = includes_str descLower ''left'';
          isRight = includes_str descLower ''right'';
          isProfile = (includes_str descLower ''90'' \<or> includes_str descLower ''profile'');
          is45 = includes_str descLower ''45'';
          isFrontal = ((includes_str descLower ''frontal''
                        \<or> (includes_str descLower ''center'' \<and> \<not> includes_str descLower ''behind''))
                       \<and> \<not> isLeft \<and> \<not> isRight \<and> \<not> isRear)
      in if isRear \<or> is45 \<or> isProfile \<or> isLeft \<or> isRight then
           ''CRITICAL: SHOT ORIENTATION '' @ emdash @ '' ''
           @ (if isRear then
                ''Rear view. Subject is facing away from camera. ''
                @ (if isLeft then ''Camera positioned behind and to the right '' @ emdash
                                  @ '' seeing back of head and left side only. '' else [])
                @ (if isRight then ''Camera positioned behind and to the left '' @ emdash
                                   @ '' seeing back of head and right side only. '' else [])
              else if isProfile then
                ''Strict 90-degree side profile. ''
                @ (if isLeft then ''Facing screen-left. Only left profile visible. '' else [])
                @ (if isRight then ''Facing screen-right. Only right profile visible. '' else [])
              else if is45 \<or> isLeft \<or> isRight then
                ''Angled orientation. ''
                @ (if isLeft then ''Subject facing screen-left. '' else [])
                @ (if isRight then ''Subject facing screen-right. '' else [])
              else [])
           @ (if isOverShoulder
              then ''Subject is looking back at the camera over their shoulder, but primary body orientation is maintained. ''
              else [])
           @ ''ABSOLUTELY NO FULL FRONTAL FACE. DO NOT TURN SUBJECT TOWARD CAMERA.''
         else if isFrontal then
           ''Direct frontal view. Subject looking straight into camera with both eyes fully visible and centered.''
         else [])"

definition composePrompt :: "Constants \<Rightarrow> App \<Rightarrow> DatasetPose \<Rightarrow> nat \<Rightarrow> nat \<Rightarrow> string" where
  "composePrompt K s pose clothingDraw expressionDraw =
     (let isPortrait = (pose_group pose = portrait);
          descLower = toLowerCase (pose_description pose);
          isSideProfile = (includes_str descLower ''90-degree'' \<or> includes_str descLower ''profile'');
          identityMod = getLockedIdentityMod isPortrait isSideProfile s;
          clothing = (case pick (CLOTHING_LIST K) clothingDraw of
                        None \<Rightarrow> ''undefined'' | Some c \<Rightarrow> c);
          hasExpressionInPose = list_ex (\<lambda>kw. includes_str descLower kw) expressionKeywords;
          expression =
            (if hasExpressionInPose then []
             else if isPortrait \<or> pose_group pose = upper
             then (case pick (FACIAL_EXPRESSIONS K) expressionDraw of None \<Rightarrow> [] | Some e \<Rightarrow> e)
             else ''neutral gaze'');
          direction = directionMod descLower;
          framingMod =
            (if isPortrait
             then ''85mm lens, Tight headshot, shoulder-up framing only, clear facial features, bokeh studio background.''
             else ''Professional framing, standard lens.'')
      in ''DATASET PRODUCTION. ''
         @ (if direction \<noteq> [] then direction @ '' '' else [])
         @ ''TARGET POSE: '' @ pose_description pose @ ''. COMPOSITION: '' @ framingMod @ ''. ''
         @ (if expression \<noteq> [] then ''EXPRESSION: '' @ expression @ ''. '' else [])
         @ ''CLOTHING: '' @ clothing @ ''. '' @ identityMod
         @ ''. ENVIRONMENT: Professional neutral high-key studio, seamless gray backdrop. 8k resolution, high detail.'')"

section \<open>Batch orchestrator (App.tsx, lines 154-157 and 245-367)\<close>

text \<open>
  \<open>startDatasetMode\<close> is an asynchronous function: it runs until it awaits a synthesis
  call, and goes on when the call comes back. The model cuts it at these points.
  \<^item> \<open>startDatasetMode\<close> is lines 246-252: the guard, the reset of the flag, of the task
    and of the failure list, and the list of poses to go through.
  \<^item> \<open>loopHead\<close> is one pass through lines 254-326, from the test of the flag to the call;
    with no pose left, or with the flag set, the loop is left and line 366 runs.
  \<^item> \<open>onResult\<close> is lines 326-364: what happens when the awaited call returns or throws.
  \<^item> \<open>stopGeneration\<close> is lines 154-157.
  The clock readings of \<open>Date.now()\<close> and the two random draws are inputs.
\<close>

definition isAuthFailure :: "string \<Rightarrow> bool" where
  "isAuthFailure m = (includes_str m ''401'' \<or> m = ''API_KEY_EXPIRED'')"

definition selectedPoses :: "Constants \<Rightarrow> App \<Rightarrow> DatasetPose list" where
  "selectedPoses K s = filter (\<lambda>p. pose_id p |\<in>| selectedPoseIds s) (POSE_DEFINITIONS K)"

definition canStart :: "App \<Rightarrow> bool" where
  "canStart s = (\<not> (\<not> truthy (sourceImage s) \<or> \<not> isProfileReady s \<or> \<not> isKeyConfirmed s
                     \<or> fcard (selectedPoseIds s) = 0))"

definition startDatasetMode :: "Constants \<Rightarrow> App \<Rightarrow> App" where
  "startDatasetMode K s =
     (if \<not> canStart s then s
      else s\<lparr>isAborted := False,
             task := \<lparr>status = generating, total_t = fcard (selectedPoseIds s), current = 0,
                      images = [], error = None\<rparr>,
             failedAssets := [],
             control := AtBoundary (selectedPoses K s),
             history := []\<rparr>)"

definition afterLoop :: "App \<Rightarrow> App" where
  "afterLoop s =
     (if \<not> isAborted s then s\<lparr>task := (task s)\<lparr>status := completed\<rparr>, control := Idle\<rparr>
      else s\<lparr>control := Idle\<rparr>)"

definition loopHead :: "Constants \<Rightarrow> nat \<Rightarrow> nat \<Rightarrow> DatasetPose list \<Rightarrow> App \<Rightarrow> App" where
  "loopHead K clothingDraw expressionDraw poses s =
     (case poses of
        [] \<Rightarrow> afterLoop s
      | pose # rest \<Rightarrow>
          if isAborted s then afterLoop s
          else s\<lparr>control := InFlight pose (composePrompt K s pose clothingDraw expressionDraw) rest\<rparr>)"

definition newImage :: "DatasetPose \<Rightarrow> string \<Rightarrow> string \<Rightarrow> nat \<Rightarrow> nat \<Rightarrow> GeneratedImage" where
  "newImage pose prompt imageUrl now_id now_ts =
     \<lparr>img_id = ''dataset-'' @ decimal now_id @ ''-'' @ pose_id pose, img_url = imageUrl,
      img_prompt = prompt, img_timestamp = now_ts, img_group = pose_group pose\<rparr>"

definition newFailure :: "DatasetPose \<Rightarrow> string \<Rightarrow> string \<Rightarrow> nat \<Rightarrow> nat \<Rightarrow> FailedAsset" where
  "newFailure pose prompt message now_id now_ts =
     \<lparr>fa_id = ''failed-'' @ decimal now_id @ ''-'' @ pose_id pose, fa_label = pose_label pose,
      fa_message = message, fa_prompt = prompt, fa_timestamp = now_ts\<rparr>"

definition onResult ::
  "DatasetPose \<Rightarrow> string \<Rightarrow> DatasetPose list \<Rightarrow> ProviderOutcome \<Rightarrow> nat \<Rightarrow> nat \<Rightarrow> App \<Rightarrow> App" where
  "onResult pose prompt rest outcome now_id now_ts s =
     (let r = generateCharacterImage outcome;
          att = \<lparr>att_pose = pose, att_prompt = prompt, att_result = r,
                 att_now_id = now_id, att_now_ts = now_ts\<rparr>
      in case r of
           Inr imageUrl \<Rightarrow>
             s\<lparr>selectedPoseIds := selectedPoseIds s |-| {|pose_id pose|},
               gallery := newImage pose prompt imageUrl now_id now_ts # gallery s,
               task := (task s)\<lparr>current := current (task s) + 1,
                                images := newImage pose prompt imageUrl now_id now_ts
                                          # images (task s)\<rparr>,
               control := AtBoundary rest,
               history := history s @ [att]\<rparr>
         | Inl message \<Rightarrow>
             if isAuthFailure message
             then s\<lparr>isKeyConfirmed := False,
                    task := (task s)\<lparr>error := Some message, status := failed\<rparr>,
                    control := Idle,
                    history := history s @ [att]\<rparr>
             else s\<lparr>failedAssets := newFailure pose prompt message now_id now_ts # failedAssets s,
                    task := (task s)\<lparr>current := current (task s) + 1\<rparr>,
                    control := AtBoundary rest,
                    history := history s @ [att]\<rparr>)"

definition stopGeneration :: "App \<Rightarrow> App" where
  "stopGeneration s = s\<lparr>isAborted := True, task := (task s)\<lparr>status := stopped\<rparr>\<rparr>"

text \<open>
  What can happen during a batch: the user presses the stop button, which is on screen
  only while the task is \<open>generating\<close> (lines 558-572); the loop passes its head; the
  call in flight comes back. JavaScript runs the loop from the return of a call to the
  next call without a break, so that a click arrives only while a call is in flight; the
  model also lets one arrive at the head of the loop, between two poses.
\<close>

datatype Event =
    Stop
  | Next nat nat
  | Resolve ProviderOutcome nat nat

fun step :: "Constants \<Rightarrow> Event \<Rightarrow> App \<Rightarrow> App" where
  "step K Stop s = (if status (task s) = generating then stopGeneration s else s)"
| "step K (Next clothingDraw expressionDraw) s =
     (case control s of
        AtBoundary poses \<Rightarrow> loopHead K clothingDraw expressionDraw poses s
      | _ \<Rightarrow> s)"
| "step K (Resolve outcome now_id now_ts) s =
     (case control s of
        InFlight pose prompt rest \<Rightarrow> onResult pose prompt rest outcome now_id now_ts s
      | _ \<Rightarrow> s)"

fun run :: "Constants \<Rightarrow> Event list \<Rightarrow> App \<Rightarrow> App" where
  "run K [] s = s"
| "run K (e # es) s = run K es (step K e s)"

text \<open>Readings of the history: which calls came back how.\<close>

definition succeeded :: "Attempt \<Rightarrow> bool" where
  "succeeded a = (case att_result a of Inr _ \<Rightarrow> True | Inl _ \<Rightarrow> False)"

definition fatal :: "Attempt \<Rightarrow> bool" where
  "fatal a = (case att_result a of Inr _ \<Rightarrow> False | Inl m \<Rightarrow> isAuthFailure m)"

definition failedNonFatal :: "Attempt \<Rightarrow> bool" where
  "failedNonFatal a = (case att_result a of Inr _ \<Rightarrow> False | Inl m \<Rightarrow> \<not> isAuthFailure m)"

text \<open>The poses for which a synthesis call has been made so far.\<close>

definition attempted :: "App \<Rightarrow> DatasetPose list" where
  "attempted s =
     map att_pose (history s)
     @ (case control s of InFlight pose _ _ \<Rightarrow> [pose] | _ \<Rightarrow> [])"

section \<open>Invariants of a batch\<close>

text \<open>
  The image and the failure record that lines 328-334 and 355-361 build for a call that
  has come back, and three invariants of the states a batch goes through, relative to
  the state \<open>s0\<close> in which it was started: \<open>ledger\<close> ties the counters and lists to
  the history, \<open>onTrack\<close> ties the history and the poses still to come to the list of
  selected poses, \<open>statusOk\<close> ties the status to the flag and to the loop.
\<close>

definition imageOf :: "Attempt \<Rightarrow> GeneratedImage" where
  "imageOf a =
     newImage (att_pose a) (att_prompt a) (case att_result a of Inr url \<Rightarrow> url | Inl _ \<Rightarrow> [])
       (att_now_id a) (att_now_ts a)"

definition failureOf :: "Attempt \<Rightarrow> FailedAsset" where
  "failureOf a =
     newFailure (att_pose a) (att_prompt a) (case att_result a of Inl m \<Rightarrow> m | Inr _ \<Rightarrow> [])
       (att_now_id a) (att_now_ts a)"

definition ledger :: "App \<Rightarrow> App \<Rightarrow> bool" where
  "ledger s0 s \<longleftrightarrow>
     current (task s) = length (filter (\<lambda>a. \<not> fatal a) (history s))
   \<and> images (task s) = rev (map imageOf (filter succeeded (history s)))
   \<and> failedAssets s = rev (map failureOf (filter failedNonFatal (history s)))
   \<and> gallery s = images (task s) @ gallery s0
   \<and> selectedPoseIds s =
       selectedPoseIds s0 |-| fset_of_list (map (\<lambda>a. pose_id (att_pose a)) (filter succeeded (history s)))
   \<and> total_t (task s) = fcard (selectedPoseIds s0)"

definition onTrack :: "Constants \<Rightarrow> App \<Rightarrow> App \<Rightarrow> bool" where
  "onTrack K s0 s \<longleftrightarrow>
     (case control s of
        Idle \<Rightarrow> (\<exists>ps. map att_pose (history s) @ ps = selectedPoses K s0)
               \<and> (\<forall>a \<in> set (butlast (history s)). \<not> fatal a)
      | AtBoundary ps \<Rightarrow> map att_pose (history s) @ ps = selectedPoses K s0
               \<and> (\<forall>a \<in> set (history s). \<not> fatal a)
      | InFlight p _ ps \<Rightarrow> map att_pose (history s) @ p # ps = selectedPoses K s0
               \<and> (\<forall>a \<in> set (history s). \<not> fatal a))"


section \<open>An example configuration\<close>

text \<open>
  Five poses, two wardrobe entries, two expressions, and the state of the application
  after a reference image has been loaded and analysed and all five poses selected (the
  other fields as lines 29-70 initialise them).
\<close>

definition examplePoses :: "DatasetPose list" where
  "examplePoses =
     [\<lparr>pose_id = ''p1'', pose_label = ''Front headshot'', pose_group = portrait,
       pose_description = ''Frontal headshot''\<rparr>,
      \<lparr>pose_id = ''p2'', pose_label = ''Left profile'', pose_group = portrait,
       pose_description = ''Strict 90-degree Left Profile''\<rparr>,
      \<lparr>pose_id = ''p3'', pose_label = ''Rear left'', pose_group = upper,
       pose_description = ''Rear view, LEFT shoulder''\<rparr>,
      \<lparr>pose_id = ''p4'', pose_label = ''Arms crossed'', pose_group = upper,
       pose_description = ''Arms crossed, stoic''\<rparr>,
      \<lparr>pose_id = ''p5'', pose_label = ''Standing'', pose_group = full,
       pose_description = ''Standing, centered''\<rparr>]"

definition exampleConstants :: Constants where
  "exampleConstants =
     \<lparr>POSE_DEFINITIONS = examplePoses,
      CLOTHING_LIST = [''white t-shirt'', ''black hoodie''],
      FACIAL_EXPRESSIONS = [''soft smile'', ''calm'']\<rparr>"

definition exampleApp :: App where
  "exampleApp =
     \<lparr>isKeyConfirmed = True, gallery = [], profileMode = auto_mode,
      manualCharacterProfile = [],
      sourceImage = Some ''data:image/png;base64,AAAA'',
      characterProfile = Some ''HAIR: waist-length. FACE: oval. BODY: narrow waist.'',
      isBodyLocked = False, isHairLocked = True, failedAssets = [],
      selectedPoseIds = {|''p1'', ''p2'', ''p3'', ''p4'', ''p5''|},
      adjustments = \<lparr>eyeColor = ''Brown'', bodyBuild = ''Average'', chestSize = ''Average'',
                      hipSize = ''Average''\<rparr>,
      task = \<lparr>status = pending, total_t = 0, current = 0, images = [], error = None\<rparr>,
      isAborted = False, control = Idle, history = []\<rparr>"

text \<open>
  Three things the provider may do with a request: answer with an image, answer without
  candidates, and reject the key.
\<close>

definition exampleImage :: ProviderOutcome where
  "exampleImage = Answered (Some [Some [None, Some ''QUJD'']])"

definition noCandidates :: ProviderOutcome where
  "noCandidates = Answered None"

definition authExpired :: ProviderOutcome where
  "authExpired = Rejected ''Requested entity was not found.''"

section \<open>Preconditions of a batch\<close>






section \<open>Orientation clause\<close>

text \<open>
  Claim C6, as the code has it. For every pose description that contains "rear" and
  "left" in any case, the orientation clause starts with the rear-view directive
  (subject facing away from camera), followed at once by the qualifier for "left": the
  camera is behind and to the right, and the side it names as visible is the left one.
  The qualifier that names the right side as the visible one is in the clause exactly
  when the description contains "right" as well.
\<close>

theorem rear_left_orientation:
  assumes "includes_str (toLowerCase d) ''rear''" and "includes_str (toLowerCase d) ''left''"
  shows "(\<exists>rest. directionMod (toLowerCase d) =
            ''CRITICAL: SHOT ORIENTATION '' @ emdash
            @ '' Rear view. Subject is facing away from camera. ''
            @ ''Camera positioned behind and to the right '' @ emdash
            @ '' seeing back of head and left side only. '' @ rest)
         \<and> includes_str (directionMod (toLowerCase d))
              ''Rear view. Subject is facing away from camera. ''
         \<and> includes_str (directionMod (toLowerCase d))
              (''Camera positioned behind and to the right '' @ emdash
               @ '' seeing back of head and left side only. '')
         \<and> (includes_str (directionMod (toLowerCase d)) ''right side only''
              \<longleftrightarrow> includes_str (toLowerCase d) ''right'')"
proof -
  let ?dl = "toLowerCase d"
  let ?rear = "''Rear view. Subject is facing away from camera. ''"
  let ?left = "''Camera positioned behind and to the right '' @ emdash
               @ '' seeing back of head and left side only. ''"
  let ?head = "''CRITICAL: SHOT ORIENTATION '' @ emdash @ '' ''"
  obtain rest where eq: "directionMod ?dl = ?head @ ?rear @ ?left @ rest"
    using assms by (simp add: directionMod_def Let_def)
  have 1: "\<exists>rest. directionMod ?dl =
            ''CRITICAL: SHOT ORIENTATION '' @ emdash
            @ '' Rear view. Subject is facing away from camera. ''
            @ ''Camera positioned behind and to the right '' @ emdash
            @ '' seeing back of head and left side only. '' @ rest"
    using eq by simp
  have 2: "includes_str (directionMod ?dl) ?rear"
    unfolding includes_str_def eq by (rule sublist_appendI)
  have "sublist ?left ((?head @ ?rear) @ ?left @ rest)"
    by (rule sublist_appendI)
  then have 3: "includes_str (directionMod ?dl) ?left"
    unfolding includes_str_def eq by (simp only: append_assoc)
  have 4: "includes_str (directionMod ?dl) ''right side only'' \<longleftrightarrow> includes_str ?dl ''right''"
  proof (cases "includes_str ?dl ''right''")
    case True
    let ?right = "''Camera positioned behind and to the left '' @ emdash
                  @ '' seeing back of head and right side only. ''"
    obtain rest' where "directionMod ?dl = (?head @ ?rear @ ?left) @ ?right @ rest'"
      using assms True by (simp add: directionMod_def Let_def)
    then have "sublist ?right (directionMod ?dl)"
      by (simp only: sublist_appendI)
    moreover have "sublist ''right side only'' ?right"
      by (simp add: sublist_Cons_right emdash_def)
    ultimately have "sublist ''right side only'' (directionMod ?dl)"
      by (rule sublist_order.order_trans [rotated])
    with True show ?thesis by (simp add: includes_str_def)
  next
    case False
    have "\<not> sublist ''right side only'' (directionMod ?dl)"
    proof (cases "includes_str ?dl ''looking back at camera''")
      case True
      with assms False show ?thesis
        by (simp add: directionMod_def Let_def sublist_Cons_right emdash_def)
    next
      case over: False
      with assms False show ?thesis
        by (simp add: directionMod_def Let_def sublist_Cons_right emdash_def)
    qed
    with False show ?thesis by (simp add: includes_str_def)
  qed
  from 1 2 3 4 show ?thesis by blast
qed

theorem rear_left_orientation_witness:
  "includes_str (toLowerCase ''Rear view, LEFT shoulder'') ''rear''
   \<and> includes_str (toLowerCase ''Rear view, LEFT shoulder'') ''left''
   \<and> includes_str (directionMod (toLowerCase ''Rear view, LEFT shoulder''))
        (''Camera positioned behind and to the right '' @ emdash
         @ '' seeing back of head and left side only. '')"
proof -
  have lower: "toLowerCase ''Rear view, LEFT shoulder'' = ''rear view, left shoulder''"
    by (simp add: toLowerCase_def lowerChar_def char_of_eq_iff)
  have rear: "includes_str (toLowerCase ''Rear view, LEFT shoulder'') ''rear''"
    unfolding lower by (simp add: includes_str_def sublist_Cons_right)
  have left: "includes_str (toLowerCase ''Rear view, LEFT shoulder'') ''left''"
    unfolding lower by (simp add: includes_str_def sublist_Cons_right)
  from rear left rear_left_orientation [OF rear left] show ?thesis by blast
qed

text \<open>
  The claim as the specification words it asks for a qualifier that names the right side
  as visible. For the description "Rear view, LEFT shoulder" the clause is the text below,
  which names the left side and does not contain "right side" at all.
\<close>

theorem rear_left_right_side_counterexample:
  "includes_str (toLowerCase ''Rear view, LEFT shoulder'') ''rear''
   \<and> includes_str (toLowerCase ''Rear view, LEFT shoulder'') ''left''
   \<and> directionMod (toLowerCase ''Rear view, LEFT shoulder'') =
       ''CRITICAL: SHOT ORIENTATION '' @ emdash
       @ '' Rear view. Subject is facing away from camera. ''
       @ ''Camera positioned behind and to the right '' @ emdash
       @ '' seeing back of head and left side only. ''
       @ ''ABSOLUTELY NO FULL FRONTAL FACE. DO NOT TURN SUBJECT TOWARD CAMERA.''
   \<and> \<not> includes_str (directionMod (toLowerCase ''Rear view, LEFT shoulder'')) ''right side''"
proof -
  have lower: "toLowerCase ''Rear view, LEFT shoulder'' = ''rear view, left shoulder''"
    by (simp add: toLowerCase_def lowerChar_def char_of_eq_iff)
  show ?thesis
    unfolding lower
    by (simp add: directionMod_def includes_str_def sublist_Cons_right emdash_def)
qed

section \<open>Invariants of a batch: preservation\<close>

lemma ledger_start: "canStart s0 \<Longrightarrow> ledger s0 (startDatasetMode K s0)"
  by (simp add: ledger_def startDatasetMode_def)

lemma onTrack_start: "canStart s0 \<Longrightarrow> onTrack K s0 (startDatasetMode K s0)"
  by (simp add: onTrack_def startDatasetMode_def selectedPoses_def)


lemma ledger_stop: "ledger s0 s \<Longrightarrow> ledger s0 (stopGeneration s)"
  by (simp add: ledger_def stopGeneration_def)

lemma ledger_afterLoop: "ledger s0 s \<Longrightarrow> ledger s0 (afterLoop s)"
  by (simp add: ledger_def afterLoop_def)

lemma ledger_loopHead: "ledger s0 s \<Longrightarrow> ledger s0 (loopHead K c e ps s)"
  by (cases ps) (simp_all add: loopHead_def ledger_afterLoop, simp add: ledger_def)

lemma ledger_onResult: "ledger s0 s \<Longrightarrow> ledger s0 (onResult p prompt rest outcome t1 t2 s)"
  by (auto simp: ledger_def onResult_def Let_def fatal_def succeeded_def failedNonFatal_def
        imageOf_def failureOf_def split: sum.splits)

lemma ledger_step: "ledger s0 s \<Longrightarrow> ledger s0 (step K e s)"
  by (cases e; cases "control s") (simp_all add: ledger_stop ledger_loopHead ledger_onResult)

lemma ledger_run: "ledger s0 s \<Longrightarrow> ledger s0 (run K evs s)"
  by (induction evs arbitrary: s) (simp_all add: ledger_step)


lemma onTrack_stop: "onTrack K s0 s \<Longrightarrow> onTrack K s0 (stopGeneration s)"
  by (simp add: onTrack_def stopGeneration_def split: Control.splits)

lemma onTrack_afterLoop:
  "map att_pose (history s) @ ps = selectedPoses K s0 \<Longrightarrow> \<forall>a \<in> set (history s). \<not> fatal a
   \<Longrightarrow> onTrack K s0 (afterLoop s)"
  by (auto simp: onTrack_def afterLoop_def dest: in_set_butlastD)

lemma onTrack_loopHead:
  assumes "onTrack K s0 s" and "control s = AtBoundary ps"
  shows "onTrack K s0 (loopHead K c e ps s)"
proof -
  from assms have seq: "map att_pose (history s) @ ps = selectedPoses K s0"
    and nf: "\<forall>a \<in> set (history s). \<not> fatal a"
    by (simp_all add: onTrack_def)
  have leave: "onTrack K s0 (afterLoop s)"
    using seq nf by (rule onTrack_afterLoop)
  show ?thesis
  proof (cases ps)
    case Nil
    with leave show ?thesis by (simp add: loopHead_def)
  next
    case (Cons p rest)
    with leave seq nf show ?thesis by (simp add: loopHead_def onTrack_def)
  qed
qed

lemma onTrack_onResult:
  "onTrack K s0 s \<Longrightarrow> control s = InFlight p prompt rest
   \<Longrightarrow> onTrack K s0 (onResult p prompt rest outcome t1 t2 s)"
  by (auto simp: onTrack_def onResult_def Let_def fatal_def split: sum.splits)

lemma onTrack_step: "onTrack K s0 s \<Longrightarrow> onTrack K s0 (step K e s)"
  by (cases e; cases "control s") (simp_all add: onTrack_stop onTrack_loopHead onTrack_onResult)

lemma onTrack_run: "onTrack K s0 s \<Longrightarrow> onTrack K s0 (run K evs s)"
  by (induction evs arbitrary: s) (simp_all add: onTrack_step)



section \<open>The example configuration, evaluated\<close>

lemma canStart_example: "canStart exampleApp"
  by (simp add: canStart_def exampleApp_def truthy_def isProfileReady_def fcard_finsert_if)

lemma distinct_example: "distinct (map pose_id (POSE_DEFINITIONS exampleConstants))"
  by (simp add: exampleConstants_def examplePoses_def)

lemma gen_image: "generateCharacterImage exampleImage = Inr ''data:image/png;base64,QUJD''"
  by (simp add: exampleImage_def)

lemma gen_noCandidates:
  "generateCharacterImage noCandidates = Inl ''The model did not return any candidates.''"
  by (simp add: noCandidates_def rethrow_def includes_str_def sublist_Cons_right)

lemma gen_authExpired: "generateCharacterImage authExpired = Inl ''API_KEY_EXPIRED''"
  by (simp add: authExpired_def rethrow_def includes_str_def sublist_Cons_right)

lemma sel_example: "selectedPoses exampleConstants exampleApp = examplePoses"
  by (simp add: selectedPoses_def exampleConstants_def exampleApp_def examplePoses_def)

lemma start_example:
  "startDatasetMode exampleConstants exampleApp =
     exampleApp\<lparr>isAborted := False,
       task := \<lparr>status = generating, total_t = 5, current = 0, images = [], error = None\<rparr>,
       failedAssets := [], control := AtBoundary examplePoses, history := []\<rparr>"
  using canStart_example
  by (simp add: startDatasetMode_def sel_example) (simp add: exampleApp_def fcard_finsert_if)

lemmas example_eval =
  start_example Let_def examplePoses_def loopHead_def afterLoop_def onResult_def stopGeneration_def
  gen_image gen_noCandidates gen_authExpired isAuthFailure_def includes_str_def
  sublist_Cons_right

lemma getLockedIdentityMod_frame:
  "getLockedIdentityMod a b (task_update f1 s) = getLockedIdentityMod a b s"
  "getLockedIdentityMod a b (gallery_update f2 s) = getLockedIdentityMod a b s"
  "getLockedIdentityMod a b (failedAssets_update f3 s) = getLockedIdentityMod a b s"
  "getLockedIdentityMod a b (selectedPoseIds_update f4 s) = getLockedIdentityMod a b s"
  "getLockedIdentityMod a b (isAborted_update f5 s) = getLockedIdentityMod a b s"
  "getLockedIdentityMod a b (control_update f6 s) = getLockedIdentityMod a b s"
  "getLockedIdentityMod a b (history_update f7 s) = getLockedIdentityMod a b s"
  "getLockedIdentityMod a b (isKeyConfirmed_update f8 s) = getLockedIdentityMod a b s"
  by (simp_all add: getLockedIdentityMod_def getActiveProfile_def Let_def split: option.splits)

lemma composePrompt_frame:
  "composePrompt K (task_update f1 s) = composePrompt K s"
  "composePrompt K (gallery_update f2 s) = composePrompt K s"
  "composePrompt K (failedAssets_update f3 s) = composePrompt K s"
  "composePrompt K (selectedPoseIds_update f4 s) = composePrompt K s"
  "composePrompt K (isAborted_update f5 s) = composePrompt K s"
  "composePrompt K (control_update f6 s) = composePrompt K s"
  "composePrompt K (history_update f7 s) = composePrompt K s"
  "composePrompt K (isKeyConfirmed_update f8 s) = composePrompt K s"
  unfolding composePrompt_def fun_eq_iff
  by (simp_all only: getLockedIdentityMod_frame simp_thms)



section \<open>Progress counters\<close>






section \<open>Selection set\<close>

lemma onTrack_prefix:
  "onTrack K s0 s \<Longrightarrow> \<exists>ps. map att_pose (history s) @ ps = selectedPoses K s0"
  by (auto simp: onTrack_def split: Control.splits)

lemma history_ids:
  assumes "onTrack K s0 s" and "distinct (map pose_id (POSE_DEFINITIONS K))"
  shows "distinct (map (\<lambda>a. pose_id (att_pose a)) (history s))"
    and "\<forall>a \<in> set (history s). pose_id (att_pose a) |\<in>| selectedPoseIds s0"
proof -
  obtain ps where seq: "map att_pose (history s) @ ps = selectedPoses K s0"
    using assms(1) onTrack_prefix by blast
  have "distinct (map pose_id (selectedPoses K s0))"
    unfolding selectedPoses_def using assms(2) by (rule distinct_map_filter)
  then have "distinct (map pose_id (map att_pose (history s)) @ map pose_id ps)"
    by (simp only: seq [symmetric] map_append)
  then have "distinct (map pose_id (map att_pose (history s)))" by simp
  then show "distinct (map (\<lambda>a. pose_id (att_pose a)) (history s))"
    by (simp add: comp_def)
  have "set (map att_pose (history s)) \<subseteq> set (selectedPoses K s0)"
    unfolding seq [symmetric] by simp
  then show "\<forall>a \<in> set (history s). pose_id (att_pose a) |\<in>| selectedPoseIds s0"
    by (auto simp: selectedPoses_def)
qed

text \<open>
  Claim C8. At every point of a batch, the id of every pose whose call came back with an
  image is out of the selection set, and the id of every pose whose call failed, fatally
  or not, is still in it. The removal happens in the step that receives the image: that
  step takes exactly the id of the pose in flight out of the set, and a step that
  receives a failure leaves the set as it is.
\<close>

theorem selection_follows_results:
  assumes "canStart s0" and "distinct (map pose_id (POSE_DEFINITIONS K))"
  shows "(\<forall>a \<in> set (history (run K evs (startDatasetMode K s0))).
            (succeeded a \<longrightarrow>
               pose_id (att_pose a) |\<notin>| selectedPoseIds (run K evs (startDatasetMode K s0)))
          \<and> (\<not> succeeded a \<longrightarrow>
               pose_id (att_pose a) |\<in>| selectedPoseIds (run K evs (startDatasetMode K s0))))
         \<and> (\<forall>pose prompt rest outcome now_id now_ts.
               control (run K evs (startDatasetMode K s0)) = InFlight pose prompt rest \<longrightarrow>
               selectedPoseIds (step K (Resolve outcome now_id now_ts)
                                  (run K evs (startDatasetMode K s0)))
               = (case generateCharacterImage outcome of
                    Inr url \<Rightarrow> selectedPoseIds (run K evs (startDatasetMode K s0)) |-| {|pose_id pose|}
                  | Inl message \<Rightarrow> selectedPoseIds (run K evs (startDatasetMode K s0))))"
proof -
  let ?s = "run K evs (startDatasetMode K s0)"
  let ?f = "\<lambda>a. pose_id (att_pose a)"
  have led: "ledger s0 ?s"
    using assms(1) by (intro ledger_run ledger_start)
  have trk: "onTrack K s0 ?s"
    using assms(1) by (intro onTrack_run onTrack_start)
  have sel: "selectedPoseIds ?s
             = selectedPoseIds s0 |-| fset_of_list (map ?f (filter succeeded (history ?s)))"
    using led by (simp add: ledger_def)
  have dist: "distinct (map ?f (history ?s))"
    and mem: "\<forall>a \<in> set (history ?s). ?f a |\<in>| selectedPoseIds s0"
    using history_ids [OF trk assms(2)] by blast+
  have inj: "inj_on ?f (set (history ?s))"
    using dist by (simp add: distinct_map)
  define ids where "ids = map ?f (filter succeeded (history ?s))"
  have sel': "selectedPoseIds ?s = selectedPoseIds s0 |-| fset_of_list ids"
    using sel by (simp only: ids_def)
  have 1: "\<forall>a \<in> set (history ?s).
            (succeeded a \<longrightarrow> ?f a |\<notin>| selectedPoseIds ?s)
          \<and> (\<not> succeeded a \<longrightarrow> ?f a |\<in>| selectedPoseIds ?s)"
  proof (intro ballI conjI impI)
    fix a assume "a \<in> set (history ?s)" "succeeded a"
    then have "?f a \<in> set ids" by (auto simp: ids_def)
    then have "?f a |\<in>| fset_of_list ids"
      by (rule iffD2 [OF fset_of_list_elem])
    then show "?f a |\<notin>| selectedPoseIds ?s"
      unfolding sel' by simp
  next
    fix a assume a: "a \<in> set (history ?s)" "\<not> succeeded a"
    have "?f a \<notin> set ids"
    proof
      assume "?f a \<in> set ids"
      then obtain b where b: "b \<in> set (history ?s)" "succeeded b" "?f b = ?f a"
        by (auto simp: ids_def)
      with inj a(1) have "b = a" by (auto dest: inj_onD)
      with b(2) a(2) show False by simp
    qed
    then have "?f a |\<notin>| fset_of_list ids"
      using fset_of_list_elem [of "?f a" ids] by blast
    moreover have "?f a |\<in>| selectedPoseIds s0" using mem a(1) by blast
    ultimately show "?f a |\<in>| selectedPoseIds ?s"
      unfolding sel' by simp
  qed
  have 2: "\<forall>pose prompt rest outcome now_id now_ts.
             control ?s = InFlight pose prompt rest \<longrightarrow>
             selectedPoseIds (step K (Resolve outcome now_id now_ts) ?s)
             = (case generateCharacterImage outcome of
                  Inr url \<Rightarrow> selectedPoseIds ?s |-| {|pose_id pose|}
                | Inl message \<Rightarrow> selectedPoseIds ?s)"
    by (simp add: onResult_def Let_def split: sum.splits)
  from 1 2 show ?thesis by blast
qed

theorem selection_follows_results_witness:
  "canStart exampleApp \<and> distinct (map pose_id (POSE_DEFINITIONS exampleConstants))
   \<and> map (\<lambda>a. (pose_id (att_pose a), succeeded a))
         (history (run exampleConstants
            [Next 0 0, Resolve exampleImage 1 2, Next 1 1, Resolve noCandidates 3 4]
            (startDatasetMode exampleConstants exampleApp)))
       = [(''p1'', True), (''p2'', False)]
   \<and> ''p1'' |\<notin>| selectedPoseIds (run exampleConstants
        [Next 0 0, Resolve exampleImage 1 2, Next 1 1, Resolve noCandidates 3 4]
        (startDatasetMode exampleConstants exampleApp))
   \<and> ''p2'' |\<in>| selectedPoseIds (run exampleConstants
        [Next 0 0, Resolve exampleImage 1 2, Next 1 1, Resolve noCandidates 3 4]
        (startDatasetMode exampleConstants exampleApp))"
proof -
  let ?s = "run exampleConstants
        [Next 0 0, Resolve exampleImage 1 2, Next 1 1, Resolve noCandidates 3 4]
        (startDatasetMode exampleConstants exampleApp)"
  have hist: "map (\<lambda>a. (pose_id (att_pose a), succeeded a)) (history ?s)
              = [(''p1'', True), (''p2'', False)]"
    by (simp add: example_eval composePrompt_frame succeeded_def)
  then obtain a b where ab: "history ?s = [a, b]"
    and a: "pose_id (att_pose a) = ''p1''" "succeeded a"
    and b: "pose_id (att_pose b) = ''p2''" "\<not> succeeded b"
    by auto
  note t = selection_follows_results [OF canStart_example distinct_example,
      of "[Next 0 0, Resolve exampleImage 1 2, Next 1 1, Resolve noCandidates 3 4]",
      THEN conjunct1]
  have "a \<in> set [a, b]" "b \<in> set [a, b]" by simp_all
  then have "a \<in> set (history ?s)" "b \<in> set (history ?s)" by (simp_all only: ab)
  then have "(succeeded a \<longrightarrow> pose_id (att_pose a) |\<notin>| selectedPoseIds ?s)
             \<and> (\<not> succeeded a \<longrightarrow> pose_id (att_pose a) |\<in>| selectedPoseIds ?s)"
    and "(succeeded b \<longrightarrow> pose_id (att_pose b) |\<notin>| selectedPoseIds ?s)
             \<and> (\<not> succeeded b \<longrightarrow> pose_id (att_pose b) |\<in>| selectedPoseIds ?s)"
    using t by (blast+)
  with a b have out: "''p1'' |\<notin>| selectedPoseIds ?s" and still: "''p2'' |\<in>| selectedPoseIds ?s"
    by simp_all
  show ?thesis
    by (intro conjI canStart_example distinct_example hist out still)
qed

section \<open>Order of the images\<close>




section \<open>Single steps of the loop\<close>

lemma idle_step: "control s = Idle \<Longrightarrow> status (task s) \<noteq> generating \<Longrightarrow> step K e s = s"
  by (cases e) simp_all

lemma idle_run: "control s = Idle \<Longrightarrow> status (task s) \<noteq> generating \<Longrightarrow> run K evs s = s"
  by (induction evs) (simp_all add: idle_step)


text \<open>What a call that comes back without an authorization failure does to the loop.\<close>

lemma resolve_processed:
  assumes "control s = InFlight p pr rest"
    and "\<forall>m. generateCharacterImage outcome = Inl m \<longrightarrow> \<not> isAuthFailure m"
  shows "control (step K (Resolve outcome t u) s) = AtBoundary rest"
    and "current (task (step K (Resolve outcome t u) s)) = current (task s) + 1"
    and "status (task (step K (Resolve outcome t u) s)) = status (task s)"
    and "isAborted (step K (Resolve outcome t u) s) = isAborted s"
    and "map att_pose (history (step K (Resolve outcome t u) s)) = map att_pose (history s) @ [p]"
  using assms by (auto simp: onResult_def Let_def split: sum.splits)

lemma next_issued:
  assumes "control s = AtBoundary (p # rest)" and "\<not> isAborted s"
  shows "control (step K (Next c e) s) = InFlight p (composePrompt K s p c e) rest"
    and "current (task (step K (Next c e) s)) = current (task s)"
    and "status (task (step K (Next c e) s)) = status (task s)"
    and "isAborted (step K (Next c e) s) = isAborted s"
    and "history (step K (Next c e) s) = history s"
  using assms by (simp_all add: loopHead_def)

lemma stop_effect:
  assumes "status (task s) = generating"
  shows "control (step K Stop s) = control s"
    and "current (task (step K Stop s)) = current (task s)"
    and "status (task (step K Stop s)) = stopped"
    and "isAborted (step K Stop s)"
    and "history (step K Stop s) = history s"
  using assms by (simp_all add: stopGeneration_def)

lemma start_effect:
  assumes "canStart s0"
  shows "control (startDatasetMode K s0) = AtBoundary (selectedPoses K s0)"
    and "current (task (startDatasetMode K s0)) = 0"
    and "status (task (startDatasetMode K s0)) = generating"
    and "\<not> isAborted (startDatasetMode K s0)"
    and "history (startDatasetMode K s0) = []"
  using assms by (simp_all add: startDatasetMode_def)

lemma leave_aborted:
  assumes "control s = AtBoundary ps" and "isAborted s"
  shows "control (step K (Next c e) s) = Idle"
    and "task (step K (Next c e) s) = task s"
    and "history (step K (Next c e) s) = history s"
  using assms by (cases ps; simp add: loopHead_def afterLoop_def)+



lemma image_non_fatal:
  "\<forall>m. generateCharacterImage exampleImage = Inl m \<longrightarrow> \<not> isAuthFailure m"
  by (simp add: gen_image)

lemma noCandidates_non_fatal:
  "\<forall>m. generateCharacterImage noCandidates = Inl m \<longrightarrow> \<not> isAuthFailure m"
  by (simp add: gen_noCandidates isAuthFailure_def includes_str_def sublist_Cons_right)

lemma no_candidates_non_fatal:
  "generateCharacterImage (Answered None) = Inl ''The model did not return any candidates.''"
  "generateCharacterImage (Answered (Some [])) = Inl ''The model did not return any candidates.''"
  "\<not> isAuthFailure ''The model did not return any candidates.''"
  by (simp_all add: rethrow_def isAuthFailure_def includes_str_def sublist_Cons_right)

section \<open>Authorization failure\<close>




section \<open>Cancellation\<close>

text \<open>
  Claim C3. \<open>stopGeneration\<close> sets the flag and the status \<open>stopped\<close> at once and
  leaves the loop where it is; the loop looks at the flag at its head only. With five
  selected poses whose first two calls come back without an authorization failure, a
  stop request that arrives between the second and the third pose finds the loop at its
  head, and the next pass leaves the loop: the task is \<open>stopped\<close> with
  \<open>current = 2\<close>, the poses attempted are the first two, and nothing changes afterwards.
  The same holds when the request arrives while the second call is in flight: that call
  is still processed, and the third pose is not begun.
\<close>

theorem stop_between_poses:
  assumes "canStart s0" and "selectedPoses K s0 = [p1, p2, p3, p4, p5]"
    and "\<forall>m. generateCharacterImage o1 = Inl m \<longrightarrow> \<not> isAuthFailure m"
    and "\<forall>m. generateCharacterImage o2 = Inl m \<longrightarrow> \<not> isAuthFailure m"
    and "between = run K [Next c1 e1, Resolve o1 t1 u1, Next c2 e2, Resolve o2 t2 u2]
                     (startDatasetMode K s0)"
    and "final = run K [Stop, Next c3 e3] between"
    and "final' = run K [Next c1 e1, Resolve o1 t1 u1, Next c2 e2, Stop, Resolve o2 t2 u2,
                        Next c3 e3] (startDatasetMode K s0)"
  shows "isAborted (stopGeneration s) \<and> status (task (stopGeneration s)) = stopped
         \<and> control (stopGeneration s) = control s
         \<and> control between = AtBoundary [p3, p4, p5] \<and> status (task between) = generating
         \<and> status (task (step K Stop between)) = stopped
         \<and> status (task final) = stopped \<and> current (task final) = 2
         \<and> control final = Idle \<and> attempted final = [p1, p2]
         \<and> (\<forall>evs. run K evs final = final)
         \<and> status (task final') = stopped \<and> current (task final') = 2
         \<and> control final' = Idle \<and> attempted final' = [p1, p2]"
proof -
  let ?s0 = "startDatasetMode K s0"
  let ?a = "step K (Next c1 e1) ?s0"
  let ?b = "step K (Resolve o1 t1 u1) ?a"
  let ?c = "step K (Next c2 e2) ?b"
  let ?d = "step K (Resolve o2 t2 u2) ?c"
  let ?e = "step K Stop ?d"
  let ?f = "step K (Next c3 e3) ?e"
  have between: "between = ?d" by (simp add: assms(5))
  have final: "final = ?f" by (simp add: assms(6) between)
  note s0 = start_effect [OF assms(1), of K, unfolded assms(2)]
  note a = next_issued [OF s0(1) s0(4), of K c1 e1]
  note b = resolve_processed [OF a(1) assms(3), of K t1 u1]
  have nb: "\<not> isAborted ?b" using b(4) a(4) s0(4) by simp
  note c = next_issued [OF b(1) nb, of K c2 e2]
  note d = resolve_processed [OF c(1) assms(4), of K t2 u2]
  have sd: "status (task ?d) = generating"
    using d(3) c(3) b(3) a(3) s0(3) by simp
  note e = stop_effect [OF sd, of K]
  have ce: "control ?e = AtBoundary [p3, p4, p5]" using e(1) d(1) by simp
  note f = leave_aborted [OF ce e(4), of K c3 e3]
  have cur: "current (task ?f) = 2"
    using f(2) e(2) d(2) c(2) b(2) a(2) s0(2) by simp
  have st: "status (task ?f) = stopped" using f(2) e(3) by simp
  have hist: "map att_pose (history ?f) = [p1, p2]"
    using f(3) e(5) d(5) c(5) b(5) a(5) s0(5) by simp
  have att: "attempted ?f = [p1, p2]" using hist f(1) by (simp add: attempted_def)
  have "status (task ?f) \<noteq> generating" using st by simp
  with f(1) have quiet: "\<forall>evs. run K evs ?f = ?f" by (simp add: idle_run)
  have 0: "isAborted (stopGeneration s) \<and> status (task (stopGeneration s)) = stopped
           \<and> control (stopGeneration s) = control s"
    by (simp add: stopGeneration_def)
  let ?e' = "step K Stop ?c"
  let ?d' = "step K (Resolve o2 t2 u2) ?e'"
  let ?f' = "step K (Next c3 e3) ?d'"
  have final': "final' = ?f'" by (simp add: assms(7))
  have sc: "status (task ?c) = generating" using c(3) b(3) a(3) s0(3) by simp
  note e' = stop_effect [OF sc, of K]
  have ce': "control ?e' = InFlight p2 (composePrompt K ?b p2 c2 e2) [p3, p4, p5]"
    using e'(1) c(1) by simp
  note d' = resolve_processed [OF ce' assms(4), of K t2 u2]
  have ad': "isAborted ?d'" using d'(4) e'(4) by simp
  note f' = leave_aborted [OF d'(1) ad', of K c3 e3]
  have cur': "current (task ?f') = 2"
    using f'(2) d'(2) e'(2) c(2) b(2) a(2) s0(2) by simp
  have st': "status (task ?f') = stopped" using f'(2) d'(3) e'(3) by simp
  have hist': "map att_pose (history ?f') = [p1, p2]"
    using f'(3) d'(5) e'(5) c(5) b(5) a(5) s0(5) by simp
  have att': "attempted ?f' = [p1, p2]" using hist' f'(1) by (simp add: attempted_def)
  from 0 d(1) sd e(3) st cur f(1) att quiet st' cur' f'(1) att' show ?thesis
    unfolding between final final' by blast
qed

theorem stop_between_poses_witness:
  "canStart exampleApp
   \<and> selectedPoses exampleConstants exampleApp = examplePoses
   \<and> generateCharacterImage exampleImage = Inr ''data:image/png;base64,QUJD''
   \<and> generateCharacterImage noCandidates = Inl ''The model did not return any candidates.''
   \<and> \<not> isAuthFailure ''The model did not return any candidates.''
   \<and> status (task (run exampleConstants [Stop, Next 0 0]
        (run exampleConstants [Next 0 0, Resolve exampleImage 1 2, Next 1 1,
                               Resolve noCandidates 3 4]
           (startDatasetMode exampleConstants exampleApp)))) = stopped
   \<and> current (task (run exampleConstants [Stop, Next 0 0]
        (run exampleConstants [Next 0 0, Resolve exampleImage 1 2, Next 1 1,
                               Resolve noCandidates 3 4]
           (startDatasetMode exampleConstants exampleApp)))) = 2"
proof -
  note t = stop_between_poses [OF canStart_example sel_example [unfolded examplePoses_def]
      image_non_fatal noCandidates_non_fatal refl refl refl,
      of exampleApp 0 0 1 2 1 1 3 4 0 0]
  note st = t [THEN conjunct2, THEN conjunct2, THEN conjunct2, THEN conjunct2,
      THEN conjunct2, THEN conjunct2, THEN conjunct1]
  note cur = t [THEN conjunct2, THEN conjunct2, THEN conjunct2, THEN conjunct2,
      THEN conjunct2, THEN conjunct2, THEN conjunct2, THEN conjunct1]
  show ?thesis
    by (intro conjI canStart_example sel_example gen_image gen_noCandidates
          no_candidates_non_fatal(3) st cur)
qed

section \<open>Failures that do not end the batch\<close>

text \<open>
  Claim C9. A call that fails without an authorization failure puts one record in front
  of the list of failed assets, with the label of the pose, the message, the prompt that
  was sent and the clock reading, adds one to \<open>task.current\<close> and hands the loop on to
  the next pose. With five selected poses of which only the third fails, and fails like
  that (as it does when the provider returns no candidates), the batch ends \<open>completed\<close>
  with \<open>current = 5\<close>, four images and exactly one failed asset, that of the third pose.
\<close>

theorem non_fatal_failure_recorded:
  assumes "canStart s0" and "selectedPoses K s0 = [p1, p2, p3, p4, p5]"
    and "generateCharacterImage o1 = Inr url1" and "generateCharacterImage o2 = Inr url2"
    and "generateCharacterImage o3 = Inl m3" and "\<not> isAuthFailure m3"
    and "generateCharacterImage o4 = Inr url4" and "generateCharacterImage o5 = Inr url5"
    and "final = run K [Next c1 e1, Resolve o1 t1 u1, Next c2 e2, Resolve o2 t2 u2,
                        Next c3 e3, Resolve o3 t3 u3, Next c4 e4, Resolve o4 t4 u4,
                        Next c5 e5, Resolve o5 t5 u5, Next c6 e6] (startDatasetMode K s0)"
  shows "status (task final) = completed \<and> current (task final) = 5
         \<and> length (images (task final)) = 4
         \<and> failedAssets final =
             [\<lparr>fa_id = ''failed-'' @ decimal t3 @ ''-'' @ pose_id p3, fa_label = pose_label p3,
               fa_message = m3, fa_prompt = composePrompt K s0 p3 c3 e3, fa_timestamp = u3\<rparr>]
         \<and> map att_prompt (history final) ! 2 = composePrompt K s0 p3 c3 e3
         \<and> generateCharacterImage (Answered None)
             = Inl ''The model did not return any candidates.''
         \<and> \<not> isAuthFailure ''The model did not return any candidates.''
         \<and> (\<forall>s pose prompt rest outcome m now_id now_ts.
               control s = InFlight pose prompt rest \<and> generateCharacterImage outcome = Inl m
               \<and> \<not> isAuthFailure m \<longrightarrow>
               failedAssets (step K (Resolve outcome now_id now_ts) s)
                 = \<lparr>fa_id = ''failed-'' @ decimal now_id @ ''-'' @ pose_id pose,
                    fa_label = pose_label pose, fa_message = m, fa_prompt = prompt,
                    fa_timestamp = now_ts\<rparr> # failedAssets s
               \<and> current (task (step K (Resolve outcome now_id now_ts) s)) = current (task s) + 1
               \<and> control (step K (Resolve outcome now_id now_ts) s) = AtBoundary rest)"
proof -
  note ev = assms(1-8) startDatasetMode_def loopHead_def onResult_def afterLoop_def
    composePrompt_frame
  have 1: "status (task final) = completed" unfolding assms(9) by (simp add: ev)
  have 2: "current (task final) = 5" unfolding assms(9) by (simp add: ev)
  have 3: "length (images (task final)) = 4" unfolding assms(9) by (simp add: ev)
  have 4: "failedAssets final =
             [\<lparr>fa_id = ''failed-'' @ decimal t3 @ ''-'' @ pose_id p3, fa_label = pose_label p3,
               fa_message = m3, fa_prompt = composePrompt K s0 p3 c3 e3, fa_timestamp = u3\<rparr>]"
    unfolding assms(9) by (simp add: ev newFailure_def)
  have 5: "map att_prompt (history final) ! 2 = composePrompt K s0 p3 c3 e3"
    unfolding assms(9) by (simp add: ev)
  have 6: "\<forall>s pose prompt rest outcome m now_id now_ts.
               control s = InFlight pose prompt rest \<and> generateCharacterImage outcome = Inl m
               \<and> \<not> isAuthFailure m \<longrightarrow>
               failedAssets (step K (Resolve outcome now_id now_ts) s)
                 = \<lparr>fa_id = ''failed-'' @ decimal now_id @ ''-'' @ pose_id pose,
                    fa_label = pose_label pose, fa_message = m, fa_prompt = prompt,
                    fa_timestamp = now_ts\<rparr> # failedAssets s
               \<and> current (task (step K (Resolve outcome now_id now_ts) s)) = current (task s) + 1
               \<and> control (step K (Resolve outcome now_id now_ts) s) = AtBoundary rest"
    by (simp add: onResult_def newFailure_def)
  from 1 2 3 4 5 6 no_candidates_non_fatal(1,3) show ?thesis by blast
qed

theorem non_fatal_failure_recorded_witness:
  "canStart exampleApp
   \<and> selectedPoses exampleConstants exampleApp = examplePoses
   \<and> generateCharacterImage exampleImage = Inr ''data:image/png;base64,QUJD''
   \<and> generateCharacterImage noCandidates = Inl ''The model did not return any candidates.''
   \<and> \<not> isAuthFailure ''The model did not return any candidates.''
   \<and> status (task (run exampleConstants
        [Next 0 0, Resolve exampleImage 1 2, Next 1 1, Resolve exampleImage 3 4,
         Next 0 1, Resolve noCandidates 5 6, Next 1 0, Resolve exampleImage 7 8,
         Next 0 0, Resolve exampleImage 9 9, Next 0 0]
        (startDatasetMode exampleConstants exampleApp))) = completed
   \<and> current (task (run exampleConstants
        [Next 0 0, Resolve exampleImage 1 2, Next 1 1, Resolve exampleImage 3 4,
         Next 0 1, Resolve noCandidates 5 6, Next 1 0, Resolve exampleImage 7 8,
         Next 0 0, Resolve exampleImage 9 9, Next 0 0]
        (startDatasetMode exampleConstants exampleApp))) = 5
   \<and> length (images (task (run exampleConstants
        [Next 0 0, Resolve exampleImage 1 2, Next 1 1, Resolve exampleImage 3 4,
         Next 0 1, Resolve noCandidates 5 6, Next 1 0, Resolve exampleImage 7 8,
         Next 0 0, Resolve exampleImage 9 9, Next 0 0]
        (startDatasetMode exampleConstants exampleApp)))) = 4
   \<and> map fa_label (failedAssets (run exampleConstants
        [Next 0 0, Resolve exampleImage 1 2, Next 1 1, Resolve exampleImage 3 4,
         Next 0 1, Resolve noCandidates 5 6, Next 1 0, Resolve exampleImage 7 8,
         Next 0 0, Resolve exampleImage 9 9, Next 0 0]
        (startDatasetMode exampleConstants exampleApp))) = [''Rear left'']"
proof -
  note t = non_fatal_failure_recorded [OF canStart_example sel_example [unfolded examplePoses_def]
      gen_image gen_image gen_noCandidates no_candidates_non_fatal(3) gen_image gen_image refl,
      of 0 0 1 2 1 1 3 4 0 1 5 6 1 0 7 8 0 0 9 9 0 0]
  note st = t [THEN conjunct1]
  note cur = t [THEN conjunct2, THEN conjunct1]
  note img = t [THEN conjunct2, THEN conjunct2, THEN conjunct1]
  note fa = t [THEN conjunct2, THEN conjunct2, THEN conjunct2, THEN conjunct1]
  have lab: "map fa_label (failedAssets (run exampleConstants
        [Next 0 0, Resolve exampleImage 1 2, Next 1 1, Resolve exampleImage 3 4,
         Next 0 1, Resolve noCandidates 5 6, Next 1 0, Resolve exampleImage 7 8,
         Next 0 0, Resolve exampleImage 9 9, Next 0 0]
        (startDatasetMode exampleConstants exampleApp))) = [''Rear left'']"
    unfolding fa by simp
  show ?thesis
    by (intro conjI canStart_example sel_example gen_image gen_noCandidates
          no_candidates_non_fatal(3) st cur img lab)
qed

section \<open>Terminal states\<close>







section \<open>Identity clause of a portrait\<close>



















end
